theory Spec2Isabelle
  imports Main "HOL-Library.Multiset"
begin

section \<open>The \<open>employee_checkins\<close> table\<close>

text \<open>
  One row of \<open>employee_checkins\<close> (migrate.js, lines 180-198). A \<open>DATE\<close> is a day number,
  a \<open>TIME\<close> is the number of microseconds since midnight (the resolution of the
  database's \<open>TIME\<close>), a \<open>TIMESTAMP\<close> is a number of microseconds. \<open>checkout_time\<close> is the
  only column that is ever \<open>NULL\<close> on the paths below. The primary key \<open>id\<close> is called
  \<open>checkin_id\<close>, the name under which \<open>create_checkin\<close> returns it.
\<close>

record checkin =
  checkin_id :: int
  user_id :: int
  checkin_date :: int
  checkin_time :: int
  checkout_time :: "int option"
  status :: string
  on_break :: bool
  total_working_minutes :: int
  total_break_minutes :: int
  total_daily_minutes :: int
  created_at :: int
  updated_at :: int

text \<open>
  The database: the rows of the table in insertion order, and the next value of the
  \<open>BIGSERIAL\<close> sequence behind \<open>id\<close>.
\<close>

record db =
  employee_checkins :: "checkin list"
  id_seq :: int

definition init_db :: db where
  "init_db = \<lparr>employee_checkins = [], id_seq = 1\<rparr>"

text \<open>
  What one request reads from its surroundings: the handler's own date
  (\<open>new Date().toISOString().split('T')[0]\<close>, the date in UTC) and time string
  (\<open>new Date().toTimeString().split(' ')[0]\<close>), and the database's \<open>CURRENT_DATE\<close>,
  \<open>CURRENT_TIME\<close> and \<open>CURRENT_TIMESTAMP\<close>. Nothing in the code ties the handler's date to
  the database's. \<open>CURRENT_TIME\<close> is a time of day with a UTC offset: \<open>current_time\<close> is
  the time of day and \<open>current_offset\<close> the offset, in microseconds east of UTC. The
  session's \<open>TimeZone\<close> is the function \<open>time_zone\<close>: the UTC offset it gives to a local
  date and time of day. \<open>epoch_numeric\<close> tells how the server computes
  \<open>EXTRACT(EPOCH FROM ...)\<close>: as a \<open>NUMERIC\<close> (PostgreSQL 14 and later) or in double
  precision (before).
\<close>

record clock =
  js_today :: int
  js_time :: string
  current_date :: int
  current_time :: int
  current_offset :: int
  current_timestamp :: int
  time_zone :: "int \<Rightarrow> int \<Rightarrow> int"
  epoch_numeric :: bool

section \<open>The generated \<open>HH:MM\<close> columns\<close>

text \<open>Integer to \<open>TEXT\<close>: decimal digits, a leading minus sign for a negative number.\<close>

definition digit_char :: "nat \<Rightarrow> char" where
  "digit_char d = char_of (48 + d)"

fun nat_text :: "nat \<Rightarrow> string" where
  "nat_text n = (if n < 10 then [digit_char n]
                 else nat_text (n div 10) @ [digit_char (n mod 10)])"

declare nat_text.simps [simp del]

definition int_text :: "int \<Rightarrow> string" where
  "int_text i = (if i < 0 then CHR ''-'' # nat_text (nat (- i)) else nat_text (nat i))"

text \<open>
  \<open>LPAD(s, n, fill)\<close>: a string of at least \<open>n\<close> characters is cut to its first \<open>n\<close>
  characters, a shorter one is extended on the left with \<open>fill\<close>, repeated as needed.
\<close>

definition lpad :: "string \<Rightarrow> nat \<Rightarrow> string \<Rightarrow> string" where
  "lpad s n fill =
     (if n \<le> length s then take n s
      else take (n - length s) (concat (replicate (n - length s) fill)) @ s)"

text \<open>
  \<open>/\<close> and \<open>%\<close> on \<open>INTEGER\<close>: the quotient is truncated towards zero and the remainder
  has the sign of the dividend. The divisor is the constant 60 everywhere.
\<close>

definition sql_div :: "int \<Rightarrow> int \<Rightarrow> int" where
  "sql_div a b = sgn a * sgn b * (\<bar>a\<bar> div \<bar>b\<bar>)"

definition sql_mod :: "int \<Rightarrow> int \<Rightarrow> int" where
  "sql_mod a b = a - b * sql_div a b"

text \<open>
  The expression of the three generated columns (migrate.js, lines 200-217):
  \<open>LPAD((m / 60)::TEXT, 2, '0') || ':' || LPAD((m % 60)::TEXT, 2, '0')\<close>.
\<close>

definition generated_hours :: "int \<Rightarrow> string" where
  "generated_hours m =
     lpad (int_text (sql_div m 60)) 2 ''0'' @ '':'' @ lpad (int_text (sql_mod m 60)) 2 ''0''"

definition total_working_hours :: "checkin \<Rightarrow> string" where
  "total_working_hours r = generated_hours (total_working_minutes r)"

definition total_break_hours :: "checkin \<Rightarrow> string" where
  "total_break_hours r = generated_hours (total_break_minutes r)"

definition total_daily_hours :: "checkin \<Rightarrow> string" where
  "total_daily_hours r = generated_hours (total_daily_minutes r)"

text \<open>
  The repository has no parser for these strings. The inverse below follows the
  specification's words (\<open>HH:MM \<rightarrow> minutes\<close>, as \<open>hours * 60 + minutes\<close>): the text before
  the first colon and the text after it are read as decimal numbers; a part that is empty
  or holds anything but digits is refused.
\<close>

definition is_digit :: "char \<Rightarrow> bool" where
  "is_digit c = (48 \<le> (of_char c :: nat) \<and> (of_char c :: nat) \<le> 57)"

definition digits_value :: "string \<Rightarrow> nat" where
  "digits_value s = foldl (\<lambda>acc c. 10 * acc + (of_char c - 48)) 0 s"

definition spec_parse_hhmm :: "string \<Rightarrow> int option" where
  "spec_parse_hhmm s =
     (let hh = takeWhile (\<lambda>c. c \<noteq> CHR '':'') s;
          mm = drop 1 (dropWhile (\<lambda>c. c \<noteq> CHR '':'') s)
      in if hh \<noteq> [] \<and> mm \<noteq> [] \<and> list_all is_digit hh \<and> list_all is_digit mm
         then Some (int (digits_value hh * 60 + digits_value mm))
         else None)"

section \<open>The stored procedures\<close>

text \<open>
  What the two procedures can raise: a violated \<open>UNIQUE\<close> or primary key, and a violated
  \<open>CHECK\<close>. The handlers catch both alike.
\<close>

datatype pg_error = unique_violation | check_violation

text \<open>
  \<open>create_checkin\<close> (migrate.js, lines 466-489). The \<open>INSERT\<close> names \<open>user_id\<close>,
  \<open>checkin_date\<close>, \<open>checkin_time\<close> and \<open>status\<close>; every other column takes its default
  (lines 185-195), and \<open>id\<close> the next value of the sequence, which stays consumed when
  the insert is refused. \<open>UNIQUE(user_id, checkin_date)\<close> and the primary key are checked
  by the database. The caller's user exists (the authentication middleware has just
  read it), so the foreign key holds.
\<close>

definition inserted_row :: "clock \<Rightarrow> int \<Rightarrow> int \<Rightarrow> checkin" where
  "inserted_row clk p_user_id new_id =
     \<lparr>checkin_id = new_id, user_id = p_user_id,
      checkin_date = current_date clk, checkin_time = current_time clk,
      checkout_time = None, status = ''checkin'', on_break = False,
      total_working_minutes = 0, total_break_minutes = 0, total_daily_minutes = 0,
      created_at = current_timestamp clk, updated_at = current_timestamp clk\<rparr>"

definition create_checkin :: "clock \<Rightarrow> int \<Rightarrow> db \<Rightarrow> (pg_error + int) \<times> db" where
  "create_checkin clk p_user_id d =
     (let new_id = id_seq d;
          d1 = d\<lparr>id_seq := new_id + 1\<rparr>
      in if list_ex (\<lambda>r. checkin_id r = new_id) (employee_checkins d)
            \<or> list_ex (\<lambda>r. user_id r = p_user_id \<and> checkin_date r = current_date clk)
                 (employee_checkins d)
         then (Inl unique_violation, d1)
         else (Inr new_id,
               d1\<lparr>employee_checkins :=
                    employee_checkins d @ [inserted_row clk p_user_id new_id]\<rparr>))"

text \<open>
  \<open>EXTRACT(EPOCH FROM ...) / 60\<close> stored in an \<open>INTEGER\<close> column. The quotient of the
  seconds by 60 is not an integer, and its assignment to the column rounds it to the
  nearest integer. A \<open>NUMERIC\<close> quotient is rounded with a half away from zero, a double
  precision quotient with a half to the even neighbour. Between two halves the quotient
  of a whole number of microseconds is too far from a half for either arithmetic to
  round it to the wrong side. In microseconds both are a rounded quotient by
  \<open>60 * 10^6\<close>.
\<close>

definition round_half_away :: "int \<Rightarrow> int \<Rightarrow> int" where
  "round_half_away a b =
     (if 0 \<le> a then (2 * a + b) div (2 * b) else - ((2 * (- a) + b) div (2 * b)))"

definition round_half_even :: "int \<Rightarrow> int \<Rightarrow> int" where
  "round_half_even a b =
     (let q = a div b; r = a mod b
      in if 2 * r < b then q
         else if b < 2 * r then q + 1
         else if even q then q else q + 1)"

definition epoch_minutes :: "bool \<Rightarrow> int \<Rightarrow> int" where
  "epoch_minutes numeric us =
     (if numeric then round_half_away us 60000000 else round_half_even us 60000000)"

text \<open>
  \<open>(checkin_date + current_time) - (checkin_date + checkin_time)\<close> in the checkout
  \<open>UPDATE\<close>. There \<open>current_time\<close> is the SQL keyword, a time of day with its UTC offset,
  so the first sum is an instant (\<open>timestamptz\<close>) at that offset. The second sum is a
  local \<open>timestamp\<close>, which the subtraction reads in the session's \<open>TimeZone\<close>. The date
  cancels and the two offsets stay. The result in microseconds:
\<close>

definition elapsed_microseconds :: "clock \<Rightarrow> checkin \<Rightarrow> int" where
  "elapsed_microseconds clk r =
     (current_time clk - current_offset clk)
       - (checkin_time r - time_zone clk (checkin_date r) (checkin_time r))"

text \<open>
  \<open>update_checkin_status\<close> (migrate.js, lines 491-521): the two \<open>UPDATE\<close> statements, as
  functions on the row they rewrite. \<open>checkout_time\<close> takes the time of day of
  \<open>CURRENT_TIME\<close> without its offset.
\<close>

definition apply_checkout :: "clock \<Rightarrow> string \<Rightarrow> checkin \<Rightarrow> checkin" where
  "apply_checkout clk p_new_status r =
     r\<lparr>checkout_time := Some (current_time clk),
       status := p_new_status,
       on_break := False,
       total_daily_minutes := epoch_minutes (epoch_numeric clk) (elapsed_microseconds clk r),
       updated_at := current_timestamp clk\<rparr>"

definition apply_status :: "clock \<Rightarrow> string \<Rightarrow> checkin \<Rightarrow> checkin" where
  "apply_status clk p_new_status r =
     r\<lparr>status := p_new_status,
       on_break := (p_new_status = ''break''),
       updated_at := current_timestamp clk\<rparr>"

definition update_where_id :: "int \<Rightarrow> (checkin \<Rightarrow> checkin) \<Rightarrow> db \<Rightarrow> db" where
  "update_where_id p_checkin_id f d =
     d\<lparr>employee_checkins :=
         map (\<lambda>r. if checkin_id r = p_checkin_id then f r else r) (employee_checkins d)\<rparr>"

text \<open>
  The \<open>CHECK\<close> on \<open>status\<close> is tested on the rows an \<open>UPDATE\<close> writes: a status outside
  the three values raises when a row has the given id, and changes nothing.
\<close>

definition status_values :: "string list" where
  "status_values = [''checkin'', ''break'', ''checkout'']"

definition update_checkin_status ::
  "clock \<Rightarrow> int \<Rightarrow> string \<Rightarrow> db \<Rightarrow> (pg_error + unit) \<times> db" where
  "update_checkin_status clk p_checkin_id p_new_status d =
     (if p_new_status = ''checkout''
      then (Inr (), update_where_id p_checkin_id (apply_checkout clk p_new_status) d)
      else if list_ex (\<lambda>r. checkin_id r = p_checkin_id) (employee_checkins d)
              \<and> p_new_status \<notin> set status_values
      then (Inl check_violation, d)
      else (Inr (), update_where_id p_checkin_id (apply_status clk p_new_status) d))"

section \<open>The request handlers\<close>

text \<open>
  A row of the history answer: the seven columns the \<open>SELECT\<close> of
  \<open>GET /get-employee-checkin\<close> names.
\<close>

record history_row =
  h_checkin_date :: int
  h_checkin_time :: int
  h_checkout_time :: "int option"
  h_total_working_hours :: string
  h_total_break_hours :: string
  h_total_daily_hours :: string
  h_status :: string

datatype payload =
    NoBody
  | CheckinBody int int string
  | HistoryBody "history_row list"

record response =
  http_status :: nat
  message :: "string option"
  body :: payload

definition internal_server_error :: response where
  "internal_server_error =
     \<lparr>http_status = 500, message = Some ''Internal server error'', body = NoBody\<rparr>"

text \<open>
  \<open>POST /employee-checkins\<close> (lines 390-423 of the checkins router) for the user the
  access token resolves to.
\<close>

definition post_employee_checkins :: "clock \<Rightarrow> int \<Rightarrow> db \<Rightarrow> response \<times> db" where
  "post_employee_checkins clk userId d =
     (let today = js_today clk;
          existingCheckin =
            filter (\<lambda>r. user_id r = userId \<and> checkin_date r = today) (employee_checkins d)
      in if length existingCheckin > 0
         then (\<lparr>http_status = 400, message = Some ''You have already checked in today'',
                 body = NoBody\<rparr>, d)
         else (case create_checkin clk userId d of
                 (Inl e, d') \<Rightarrow> (internal_server_error, d')
               | (Inr checkinId, d') \<Rightarrow>
                   (\<lparr>http_status = 201, message = Some ''Check-in successful'',
                      body = CheckinBody checkinId today (js_time clk)\<rparr>, d')))"

text \<open>
  \<open>PUT /employee-checkins/:id\<close> (lines 426-456). The body is the object the JSON body
  parser leaves, and \<open>type\<close> is whatever value it holds under that key (\<open>undefined\<close> when
  it holds none); \<open>includes\<close> compares it with the three strings without coercion.
  The \<open>:id\<close> path segment goes to the database as text: \<open>req_id\<close> is the \<open>BIGINT\<close> the
  database reads from it, or \<open>None\<close> when it reads none and the query raises.
\<close>

datatype jsval = JUndefined | JNull | JBool bool | JString string | JOther

record update_request =
  req_id :: "int option"
  req_type :: jsval

definition invalid_status_type :: response where
  "invalid_status_type =
     \<lparr>http_status = 400, message = Some ''Invalid status type'', body = NoBody\<rparr>"

definition transition_message :: "string \<Rightarrow> string" where
  "transition_message t =
     (if t = ''break'' then ''Break started''
      else if t = ''checkin'' then ''Back to work''
      else if t = ''checkout'' then ''Checked out successfully''
      else [])"

definition put_employee_checkins :: "clock \<Rightarrow> update_request \<Rightarrow> db \<Rightarrow> response \<times> db" where
  "put_employee_checkins clk req d =
     (case req_type req of
        JString t \<Rightarrow>
          if t \<notin> set [''break'', ''checkin'', ''checkout'']
          then (invalid_status_type, d)
          else (case req_id req of
                  None \<Rightarrow> (internal_server_error, d)
                | Some checkinId \<Rightarrow>
                    (case update_checkin_status clk checkinId t d of
                       (Inl e, d') \<Rightarrow> (internal_server_error, d')
                     | (Inr u, d') \<Rightarrow>
                         (\<lparr>http_status = 200, message = Some (transition_message t),
                            body = NoBody\<rparr>, d')))
      | _ \<Rightarrow> (invalid_status_type, d))"

text \<open>
  \<open>GET /get-employee-checkin\<close> (lines 459-487):
  \<open>WHERE user_id = $1 ORDER BY checkin_date DESC LIMIT 30\<close>. Rows of one user have
  different dates (the \<open>UNIQUE\<close> constraint), so the order of equal dates, which SQL leaves
  open, does not arise.
\<close>

definition history_of :: "checkin \<Rightarrow> history_row" where
  "history_of r =
     \<lparr>h_checkin_date = checkin_date r, h_checkin_time = checkin_time r,
      h_checkout_time = checkout_time r,
      h_total_working_hours = total_working_hours r,
      h_total_break_hours = total_break_hours r,
      h_total_daily_hours = total_daily_hours r,
      h_status = status r\<rparr>"

definition select_history :: "int \<Rightarrow> db \<Rightarrow> checkin list" where
  "select_history userId d =
     take 30 (sort_key (\<lambda>r. - checkin_date r)
                (filter (\<lambda>r. user_id r = userId) (employee_checkins d)))"

definition get_employee_checkin :: "int \<Rightarrow> db \<Rightarrow> response \<times> db" where
  "get_employee_checkin userId d =
     (\<lparr>http_status = 200, message = None,
       body = HistoryBody (map history_of (select_history userId d))\<rparr>, d)"


section \<open>Sequences of requests\<close>

datatype request =
    OpenDay clock int
  | ApplyTransition clock update_request
  | ReadHistory int

fun handle :: "request \<Rightarrow> db \<Rightarrow> response \<times> db" where
  "handle (OpenDay clk userId) d = post_employee_checkins clk userId d"
| "handle (ApplyTransition clk req) d = put_employee_checkins clk req d"
| "handle (ReadHistory userId) d = get_employee_checkin userId d"

definition run :: "request list \<Rightarrow> db \<Rightarrow> db" where
  "run reqs d = foldl (\<lambda>s q. snd (handle q s)) d reqs"

section \<open>Constraints of the table and properties of its rows\<close>

text \<open>
  What the schema guarantees of every stored table: the primary key, the ids handed out
  by the sequence so far, \<open>UNIQUE(user_id, checkin_date)\<close> and the \<open>CHECK\<close> on \<open>status\<close>.
\<close>

definition constraints_hold :: "db \<Rightarrow> bool" where
  "constraints_hold d =
     (distinct (map checkin_id (employee_checkins d))
      \<and> list_all (\<lambda>r. checkin_id r < id_seq d) (employee_checkins d)
      \<and> distinct (map (\<lambda>r. (user_id r, checkin_date r)) (employee_checkins d))
      \<and> list_all (\<lambda>r. status r \<in> set status_values) (employee_checkins d))"

definition on_break_matches_status :: "checkin \<Rightarrow> bool" where
  "on_break_matches_status r = (on_break r = (status r = ''break''))"

text \<open>The rows of one employee on one day.\<close>

definition rows_of_day :: "int \<Rightarrow> int \<Rightarrow> db \<Rightarrow> checkin list" where
  "rows_of_day userId day d =
     filter (\<lambda>r. user_id r = userId \<and> checkin_date r = day) (employee_checkins d)"

text \<open>
  A row without the three columns a status change may write: two rows agree on every
  other column exactly when their images are equal.
\<close>

definition without_status_columns :: "checkin \<Rightarrow> checkin" where
  "without_status_columns r = r\<lparr>status := [], on_break := False, updated_at := 0\<rparr>"

section \<open>Example data\<close>

text \<open>
  A time of day from hours, minutes and seconds; a clock on which the handler and the
  database read the same instant, in a session whose time zone is UTC, on a server that
  computes the epoch as a \<open>NUMERIC\<close>; and three tables reached from the empty one: a day
  just opened, a day closed at 17:30:00, and 31 days opened by one employee.
\<close>

definition hms :: "int \<Rightarrow> int \<Rightarrow> int \<Rightarrow> int" where
  "hms h m s = ((h * 60 + m) * 60 + s) * 1000000"

definition time_text :: "int \<Rightarrow> string" where
  "time_text t =
     lpad (int_text (t div 3600000000)) 2 ''0'' @ '':'' @
     lpad (int_text (t div 60000000 mod 60)) 2 ''0'' @ '':'' @
     lpad (int_text (t div 1000000 mod 60)) 2 ''0''"

definition clock_at :: "int \<Rightarrow> int \<Rightarrow> clock" where
  "clock_at day t =
     \<lparr>js_today = day, js_time = time_text t, current_date = day, current_time = t,
      current_offset = 0, current_timestamp = day * 86400000000 + t,
      time_zone = (\<lambda>d s. 0), epoch_numeric = True\<rparr>"

definition transition :: "int \<Rightarrow> string \<Rightarrow> update_request" where
  "transition i t = \<lparr>req_id = Some i, req_type = JString t\<rparr>"

definition opened_db :: db where
  "opened_db = run [OpenDay (clock_at 20000 (hms 9 0 0)) 7] init_db"

definition closed_db :: db where
  "closed_db =
     run [OpenDay (clock_at 20000 (hms 9 0 0)) 7,
          ApplyTransition (clock_at 20000 (hms 17 30 0)) (transition 1 ''checkout'')] init_db"


text \<open>
  A clock of half past midnight on day 20000 in a session two hours east of UTC: the
  handler's date, taken in UTC, is still day 19999.
\<close>

definition skewed_clock :: clock where
  "skewed_clock =
     (clock_at 20000 (hms 0 30 0))
       \<lparr>js_today := 19999, js_time := time_text (hms 22 30 0),
        current_offset := hms 2 0 0, time_zone := (\<lambda>d s. hms 2 0 0)\<rparr>"




section \<open>Constraints are kept and handlers analysed by cases\<close>

lemma constraints_hold_init: "constraints_hold init_db"
  by (simp add: constraints_hold_def init_db_def)

lemma create_checkin_constraints:
  "constraints_hold d \<Longrightarrow> constraints_hold (snd (create_checkin clk u d))"
  by (auto simp: constraints_hold_def create_checkin_def Let_def list_ex_iff list_all_iff
      status_values_def inserted_row_def)

lemma update_where_id_constraints:
  assumes "constraints_hold d"
    and "\<And>r. checkin_id (f r) = checkin_id r"
    and "\<And>r. user_id (f r) = user_id r"
    and "\<And>r. checkin_date (f r) = checkin_date r"
    and "\<And>r. status (f r) \<in> set status_values"
  shows "constraints_hold (update_where_id i f d)"
proof -
  have a: "map checkin_id (map (\<lambda>r. if checkin_id r = i then f r else r) xs) = map checkin_id xs" for xs
    by (induction xs) (simp_all add: assms)
  have b: "map (\<lambda>r. (user_id r, checkin_date r)) (map (\<lambda>r. if checkin_id r = i then f r else r) xs)
           = map (\<lambda>r. (user_id r, checkin_date r)) xs" for xs
    by (induction xs) (simp_all add: assms)
  show ?thesis
    using assms(1) unfolding constraints_hold_def update_where_id_def
    by (simp add: a b del: map_map) (auto simp: list_all_iff assms)
qed

lemma update_checkin_status_constraints:
  assumes "constraints_hold d" "t \<in> set status_values"
  shows "constraints_hold (snd (update_checkin_status clk i t d))"
  using assms
  by (auto simp: update_checkin_status_def intro!: update_where_id_constraints
      simp: apply_checkout_def apply_status_def status_values_def)

lemma update_checkin_status_valid:
  assumes "t \<in> set status_values"
  shows "update_checkin_status clk i t d =
         (Inr (), update_where_id i (if t = ''checkout'' then apply_checkout clk t
                                     else apply_status clk t) d)"
  using assms by (simp add: update_checkin_status_def)

lemma put_valid:
  assumes "t \<in> set status_values"
  shows "put_employee_checkins clk \<lparr>req_id = Some i, req_type = JString t\<rparr> d =
         (\<lparr>http_status = 200, message = Some (transition_message t), body = NoBody\<rparr>,
          update_where_id i (if t = ''checkout'' then apply_checkout clk t
                             else apply_status clk t) d)"
proof -
  have "t \<in> set [''break'', ''checkin'', ''checkout'']"
    using assms by (auto simp: status_values_def)
  then show ?thesis
    by (simp add: put_employee_checkins_def update_checkin_status_valid [OF assms])
qed

lemma put_cases:
  obtains (unchanged) "snd (put_employee_checkins clk req d) = d"
  | (updated) i t where "t \<in> set status_values" "req = \<lparr>req_id = Some i, req_type = JString t\<rparr>"
proof (cases "req_type req")
  case (JString t)
  show ?thesis
  proof (cases "t \<in> set status_values")
    case True
    show ?thesis
    proof (cases "req_id req")
      case None
      with JString True have "snd (put_employee_checkins clk req d) = d"
        by (simp add: put_employee_checkins_def status_values_def)
      then show ?thesis by (rule unchanged)
    next
      case (Some i)
      with JString have "req = \<lparr>req_id = Some i, req_type = JString t\<rparr>" by simp
      with True show ?thesis by (rule updated)
    qed
  next
    case False
    with JString have "snd (put_employee_checkins clk req d) = d"
      by (auto simp: put_employee_checkins_def status_values_def)
    then show ?thesis by (rule unchanged)
  qed
qed (simp_all add: put_employee_checkins_def unchanged)

lemma put_constraints:
  assumes "constraints_hold d"
  shows "constraints_hold (snd (put_employee_checkins clk req d))"
proof (cases rule: put_cases [of clk req d])
  case unchanged
  with assms show ?thesis by simp
next
  case (updated i t)
  have "constraints_hold (update_where_id i (if t = ''checkout'' then apply_checkout clk t
                             else apply_status clk t) d)"
    using assms updated(1)
    by (intro update_where_id_constraints) (auto simp: apply_checkout_def apply_status_def status_values_def)
  then show ?thesis by (simp add: updated(2) put_valid [OF updated(1)])
qed

lemma post_constraints:
  assumes "constraints_hold d"
  shows "constraints_hold (snd (post_employee_checkins clk u d))"
  using create_checkin_constraints [OF assms, of clk u]
  by (auto simp: post_employee_checkins_def Let_def assms split: prod.splits sum.splits)

lemma handle_constraints:
  "constraints_hold d \<Longrightarrow> constraints_hold (snd (handle q d))"
  by (cases q) (simp_all add: put_constraints post_constraints get_employee_checkin_def)

lemma run_constraints:
  "constraints_hold d \<Longrightarrow> constraints_hold (run reqs d)"
  unfolding run_def by (induction reqs arbitrary: d) (simp_all add: handle_constraints)

lemma create_checkin_on_break:
  "list_all on_break_matches_status (employee_checkins d) \<Longrightarrow>
   list_all on_break_matches_status (employee_checkins (snd (create_checkin clk u d)))"
  by (simp add: create_checkin_def Let_def on_break_matches_status_def inserted_row_def)

lemma post_on_break:
  assumes "list_all on_break_matches_status (employee_checkins d)"
  shows "list_all on_break_matches_status (employee_checkins (snd (post_employee_checkins clk u d)))"
  using create_checkin_on_break [OF assms, of clk u]
  by (auto simp: post_employee_checkins_def Let_def assms split: prod.splits sum.splits)

lemma update_where_id_on_break:
  assumes "list_all on_break_matches_status (employee_checkins d)"
    and "\<And>r. on_break_matches_status (f r)"
  shows "list_all on_break_matches_status (employee_checkins (update_where_id i f d))"
  using assms by (auto simp: update_where_id_def list_all_iff)

lemma put_on_break:
  assumes "list_all on_break_matches_status (employee_checkins d)"
  shows "list_all on_break_matches_status (employee_checkins (snd (put_employee_checkins clk req d)))"
proof (cases rule: put_cases [of clk req d])
  case unchanged
  with assms show ?thesis by simp
next
  case (updated i t)
  have "list_all on_break_matches_status (employee_checkins
          (update_where_id i (if t = ''checkout'' then apply_checkout clk t
                             else apply_status clk t) d))"
    using assms
    by (rule update_where_id_on_break)
      (simp add: apply_checkout_def apply_status_def on_break_matches_status_def)
  then show ?thesis by (simp add: updated(2) put_valid [OF updated(1)])
qed

lemma handle_on_break:
  "list_all on_break_matches_status (employee_checkins d) \<Longrightarrow>
   list_all on_break_matches_status (employee_checkins (snd (handle q d)))"
  by (cases q) (simp_all add: put_on_break post_on_break get_employee_checkin_def)

lemma distinct_map_filter_le1:
  "distinct (map f xs) \<Longrightarrow> length (filter (\<lambda>x. f x = k) xs) \<le> 1"
  by (induction xs) (auto simp: filter_empty_conv image_iff)

lemma rows_of_day_le1:
  assumes "constraints_hold d"
  shows "length (rows_of_day u day d) \<le> 1"
proof -
  have "distinct (map (\<lambda>r. (user_id r, checkin_date r)) (employee_checkins d))"
    using assms by (simp add: constraints_hold_def)
  from distinct_map_filter_le1 [OF this, of "(u, day)"]
  show ?thesis by (simp add: rows_of_day_def)
qed

lemma post_duplicate:
  assumes "rows_of_day u (js_today clk) d \<noteq> []"
  shows "post_employee_checkins clk u d =
         (\<lparr>http_status = 400, message = Some ''You have already checked in today'',
            body = NoBody\<rparr>, d)"
  using assms by (simp add: post_employee_checkins_def rows_of_day_def Let_def)

lemma create_checkin_new:
  assumes "constraints_hold d" "rows_of_day u (current_date clk) d = []"
  shows "create_checkin clk u d =
         (Inr (id_seq d),
          \<lparr>employee_checkins = employee_checkins d @ [inserted_row clk u (id_seq d)],
           id_seq = id_seq d + 1\<rparr>)"
proof -
  have a: "\<not> list_ex (\<lambda>r. checkin_id r = id_seq d) (employee_checkins d)"
    using assms(1) by (auto simp: constraints_hold_def list_ex_iff list_all_iff)
  have b: "\<not> list_ex (\<lambda>r. user_id r = u \<and> checkin_date r = current_date clk)
                (employee_checkins d)"
    using assms(2) by (simp add: rows_of_day_def filter_empty_conv list_ex_iff)
  show ?thesis by (simp add: create_checkin_def Let_def a b)
qed

lemma post_cases:
  obtains (conflict) "post_employee_checkins clk u d =
         (\<lparr>http_status = 400, message = Some ''You have already checked in today'',
            body = NoBody\<rparr>, d)"
  | (refused) "post_employee_checkins clk u d =
         (internal_server_error, d\<lparr>id_seq := id_seq d + 1\<rparr>)"
  | (created) "post_employee_checkins clk u d =
         (\<lparr>http_status = 201, message = Some ''Check-in successful'',
            body = CheckinBody (id_seq d) (js_today clk) (js_time clk)\<rparr>,
          \<lparr>employee_checkins = employee_checkins d @ [inserted_row clk u (id_seq d)],
           id_seq = id_seq d + 1\<rparr>)"
proof (cases "rows_of_day u (js_today clk) d = []")
  case False
  then show ?thesis by (rule conflict [OF post_duplicate])
next
  case True
  then have f: "filter (\<lambda>r. user_id r = u \<and> checkin_date r = js_today clk)
                  (employee_checkins d) = []"
    by (simp add: rows_of_day_def)
  show ?thesis
  proof (cases "list_ex (\<lambda>r. checkin_id r = id_seq d) (employee_checkins d)
            \<or> list_ex (\<lambda>r. user_id r = u \<and> checkin_date r = current_date clk)
                 (employee_checkins d)")
    case True
    then show ?thesis
      by (intro refused) (simp add: post_employee_checkins_def create_checkin_def Let_def f)
  next
    case False
    then show ?thesis
      by (intro created) (simp add: post_employee_checkins_def create_checkin_def Let_def f)
  qed
qed

section \<open>Transitions against a missing or a closed record\<close>

lemma update_where_id_missing:
  assumes "\<not> list_ex (\<lambda>r. checkin_id r = i) (employee_checkins d)"
  shows "update_where_id i f d = d"
proof -
  have "map (\<lambda>r. if checkin_id r = i then f r else r) (employee_checkins d) = employee_checkins d"
    using assms by (simp add: list_ex_iff map_idI)
  then show ?thesis by (simp add: update_where_id_def)
qed

lemma put_missing:
  assumes "\<not> list_ex (\<lambda>r. checkin_id r = i) (employee_checkins d)"
  shows "snd (put_employee_checkins clk \<lparr>req_id = Some i, req_type = ty\<rparr> d) = d"
proof (cases rule: put_cases [of clk "\<lparr>req_id = Some i, req_type = ty\<rparr>" d])
  case unchanged
  then show ?thesis .
next
  case (updated j t)
  then have "j = i" "ty = JString t" by simp_all
  then show ?thesis
    by (simp add: put_valid [OF updated(1)] update_where_id_missing [OF assms])
qed

lemma put_no_id:
  "snd (put_employee_checkins clk \<lparr>req_id = None, req_type = ty\<rparr> d) = d"
  by (cases rule: put_cases [of clk "\<lparr>req_id = None, req_type = ty\<rparr>" d]) simp_all

text \<open>
  Claim C1, as amended. A transition request whose identifier names no stored record, or
  whose \<open>:id\<close> the database does not read as a \<open>BIGINT\<close>, leaves the database as it was,
  whatever its type. A request with one of the three recognised types against a record
  whose status is \<open>checkout\<close> is not refused: it is answered 200 with the message of
  the transition and rewrites the record as it would any other, so that the record's
  status is the requested one afterwards.
\<close>

theorem transition_on_missing_or_closed_record:
  "(\<not> list_ex (\<lambda>r. checkin_id r = i) (employee_checkins d) \<longrightarrow>
      snd (put_employee_checkins clk \<lparr>req_id = Some i, req_type = ty\<rparr> d) = d)
   \<and> snd (put_employee_checkins clk \<lparr>req_id = None, req_type = ty\<rparr> d) = d
   \<and> (t \<in> set status_values \<and> list_ex (\<lambda>r. checkin_id r = i \<and> status r = ''checkout'')
         (employee_checkins d) \<longrightarrow>
        fst (put_employee_checkins clk \<lparr>req_id = Some i, req_type = JString t\<rparr> d) =
          \<lparr>http_status = 200, message = Some (transition_message t), body = NoBody\<rparr>
        \<and> employee_checkins
            (snd (put_employee_checkins clk \<lparr>req_id = Some i, req_type = JString t\<rparr> d)) =
          map (\<lambda>r. if checkin_id r = i
                    then (if t = ''checkout'' then apply_checkout clk t r
                          else apply_status clk t r)
                    else r) (employee_checkins d)
        \<and> list_ex (\<lambda>r. checkin_id r = i \<and> status r = t)
            (employee_checkins
              (snd (put_employee_checkins clk \<lparr>req_id = Some i, req_type = JString t\<rparr> d))))"
proof (intro conjI impI)
  assume "\<not> list_ex (\<lambda>r. checkin_id r = i) (employee_checkins d)"
  then show "snd (put_employee_checkins clk \<lparr>req_id = Some i, req_type = ty\<rparr> d) = d"
    by (rule put_missing)
next
  show "snd (put_employee_checkins clk \<lparr>req_id = None, req_type = ty\<rparr> d) = d"
    by (rule put_no_id)
next
  assume a: "t \<in> set status_values \<and> list_ex (\<lambda>r. checkin_id r = i \<and> status r = ''checkout'')
         (employee_checkins d)"
  then have t: "t \<in> set status_values" by simp
  show "fst (put_employee_checkins clk \<lparr>req_id = Some i, req_type = JString t\<rparr> d) =
          \<lparr>http_status = 200, message = Some (transition_message t), body = NoBody\<rparr>"
    by (simp add: put_valid [OF t])
  show m: "employee_checkins
            (snd (put_employee_checkins clk \<lparr>req_id = Some i, req_type = JString t\<rparr> d)) =
          map (\<lambda>r. if checkin_id r = i
                    then (if t = ''checkout'' then apply_checkout clk t r
                          else apply_status clk t r)
                    else r) (employee_checkins d)"
    by (simp add: put_valid [OF t] update_where_id_def)
  from a obtain r where r: "r \<in> set (employee_checkins d)" "checkin_id r = i"
    by (auto simp: list_ex_iff)
  show "list_ex (\<lambda>r. checkin_id r = i \<and> status r = t)
            (employee_checkins
              (snd (put_employee_checkins clk \<lparr>req_id = Some i, req_type = JString t\<rparr> d)))"
  proof -
    define g where "g = (if t = ''checkout'' then apply_checkout clk t else apply_status clk t)"
    have "g r \<in> set (map (\<lambda>r. if checkin_id r = i then g r else r) (employee_checkins d))"
      using r by (auto simp: image_iff intro!: bexI [of _ r])
    moreover have "checkin_id (g r) = i \<and> status (g r) = t"
      using r(2) by (simp add: g_def apply_checkout_def apply_status_def)
    moreover have "employee_checkins
            (snd (put_employee_checkins clk \<lparr>req_id = Some i, req_type = JString t\<rparr> d)) =
         map (\<lambda>r. if checkin_id r = i then g r else r) (employee_checkins d)"
      unfolding m g_def by (rule map_cong) simp_all
    ultimately show ?thesis unfolding list_ex_iff by metis
  qed
qed

text \<open>
  On the table whose one record (id 1) was closed at 17:30:00: a break requested for id 99
  changes nothing, and a break requested for id 1 puts the closed record on break.
\<close>

theorem transition_on_missing_or_closed_record_witness:
  "snd (put_employee_checkins (clock_at 20000 (hms 18 0 0))
          \<lparr>req_id = Some 99, req_type = JString ''break''\<rparr> closed_db) = closed_db
   \<and> list_ex (\<lambda>r. checkin_id r = 1 \<and> status r = ''break'')
        (employee_checkins
          (snd (put_employee_checkins (clock_at 20000 (hms 18 0 0))
                  \<lparr>req_id = Some 1, req_type = JString ''break''\<rparr> closed_db)))"
proof -
  have a: "\<not> list_ex (\<lambda>r. checkin_id r = 99) (employee_checkins closed_db)"
    by code_simp
  have b: "''break'' \<in> set status_values
           \<and> list_ex (\<lambda>r. checkin_id r = 1 \<and> status r = ''checkout'')
                (employee_checkins closed_db)"
    by code_simp
  from a b
    transition_on_missing_or_closed_record
      [of 99 closed_db "clock_at 20000 (hms 18 0 0)" "JString ''break''" "''break''"]
    transition_on_missing_or_closed_record
      [of 1 closed_db "clock_at 20000 (hms 18 0 0)" "JString ''break''" "''break''"]
  show ?thesis by blast
qed

text \<open>
  Claim C1 as stated fails on the same table: the record with id 1 has status
  \<open>checkout\<close>, a later request of type \<open>checkin\<close> is answered 200 \<open>Back to work\<close> and
  the stored status becomes \<open>checkin\<close>; a request for the missing id 99 is answered
  200 \<open>Break started\<close>, not with an error.
\<close>

theorem transition_after_checkout_counterexample:
  "list_ex (\<lambda>r. checkin_id r = 1 \<and> status r = ''checkout'') (employee_checkins closed_db)
   \<and> fst (put_employee_checkins (clock_at 20000 (hms 18 0 0))
            \<lparr>req_id = Some 1, req_type = JString ''checkin''\<rparr> closed_db) =
       \<lparr>http_status = 200, message = Some ''Back to work'', body = NoBody\<rparr>
   \<and> map status (employee_checkins
         (snd (put_employee_checkins (clock_at 20000 (hms 18 0 0))
                 \<lparr>req_id = Some 1, req_type = JString ''checkin''\<rparr> closed_db))) =
       [''checkin'']
   \<and> \<not> list_ex (\<lambda>r. checkin_id r = 99) (employee_checkins closed_db)
   \<and> fst (put_employee_checkins (clock_at 20000 (hms 18 0 0))
            \<lparr>req_id = Some 99, req_type = JString ''break''\<rparr> closed_db) =
       \<lparr>http_status = 200, message = Some ''Break started'', body = NoBody\<rparr>"
  by code_simp

section \<open>Opening a day\<close>

lemma post_refused:
  assumes "rows_of_day u (js_today clk) d = []" "rows_of_day u (current_date clk) d \<noteq> []"
  shows "post_employee_checkins clk u d = (internal_server_error, d\<lparr>id_seq := id_seq d + 1\<rparr>)"
proof -
  have f: "filter (\<lambda>r. user_id r = u \<and> checkin_date r = js_today clk) (employee_checkins d) = []"
    using assms(1) by (simp add: rows_of_day_def)
  have "list_ex (\<lambda>r. user_id r = u \<and> checkin_date r = current_date clk) (employee_checkins d)"
    using assms(2) by (simp add: rows_of_day_def filter_empty_conv list_ex_iff)
  then show ?thesis
    by (simp add: post_employee_checkins_def create_checkin_def Let_def f)
qed

lemma post_created:
  assumes "constraints_hold d" "rows_of_day u (js_today clk) d = []"
    "rows_of_day u (current_date clk) d = []"
  shows "post_employee_checkins clk u d =
         (\<lparr>http_status = 201, message = Some ''Check-in successful'',
            body = CheckinBody (id_seq d) (js_today clk) (js_time clk)\<rparr>,
          \<lparr>employee_checkins = employee_checkins d @ [inserted_row clk u (id_seq d)],
           id_seq = id_seq d + 1\<rparr>)"
proof -
  have f: "filter (\<lambda>r. user_id r = u \<and> checkin_date r = js_today clk) (employee_checkins d) = []"
    using assms(2) by (simp add: rows_of_day_def)
  show ?thesis
    by (simp add: post_employee_checkins_def Let_def f
        create_checkin_new [OF assms(1) assms(3)])
qed

text \<open>
  Claim C2, as amended. On a table that satisfies the schema's constraints, with the
  handler's date and the database's \<open>CURRENT_DATE\<close> read independently: when a record
  exists for the employee and the handler's date, the answer is 400 \<open>You have already
  checked in today\<close>, the database is unchanged and holds exactly one record for that
  employee and day. When none exists for the handler's date and none for the database's
  date, the answer is 201, exactly one row is appended, it carries the database's date,
  and it is the only record of that employee and that date. In the remaining case, a
  record for the database's date and none for the handler's, the rows stay as they were.
\<close>

theorem open_day_once_per_day:
  assumes "constraints_hold d"
  shows "(rows_of_day u (js_today clk) d \<noteq> [] \<longrightarrow>
            post_employee_checkins clk u d =
              (\<lparr>http_status = 400, message = Some ''You have already checked in today'',
                 body = NoBody\<rparr>, d)
            \<and> length (rows_of_day u (js_today clk)
                        (snd (post_employee_checkins clk u d))) = 1)
       \<and> (rows_of_day u (js_today clk) d = [] \<and> rows_of_day u (current_date clk) d = [] \<longrightarrow>
            fst (post_employee_checkins clk u d) =
              \<lparr>http_status = 201, message = Some ''Check-in successful'',
                body = CheckinBody (id_seq d) (js_today clk) (js_time clk)\<rparr>
            \<and> employee_checkins (snd (post_employee_checkins clk u d)) =
                employee_checkins d @ [inserted_row clk u (id_seq d)]
            \<and> user_id (inserted_row clk u (id_seq d)) = u
            \<and> checkin_date (inserted_row clk u (id_seq d)) = current_date clk
            \<and> rows_of_day u (current_date clk) (snd (post_employee_checkins clk u d)) =
                [inserted_row clk u (id_seq d)])
       \<and> (rows_of_day u (js_today clk) d = [] \<and> rows_of_day u (current_date clk) d \<noteq> [] \<longrightarrow>
            employee_checkins (snd (post_employee_checkins clk u d)) = employee_checkins d)"
proof (intro conjI impI)
  assume a: "rows_of_day u (js_today clk) d \<noteq> []"
  show "post_employee_checkins clk u d =
          (\<lparr>http_status = 400, message = Some ''You have already checked in today'',
             body = NoBody\<rparr>, d)"
    by (rule post_duplicate [OF a])
  have "length (rows_of_day u (js_today clk) d) \<le> 1" by (rule rows_of_day_le1 [OF assms])
  with a show "length (rows_of_day u (js_today clk)
                        (snd (post_employee_checkins clk u d))) = 1"
    by (cases "rows_of_day u (js_today clk) d") (simp_all add: post_duplicate [OF a])
next
  assume b: "rows_of_day u (js_today clk) d = [] \<and> rows_of_day u (current_date clk) d = []"
  then have e: "rows_of_day u (js_today clk) d = []"
    and c: "rows_of_day u (current_date clk) d = []"
    by simp_all
  note p = post_created [OF assms e c]
  show "fst (post_employee_checkins clk u d) =
              \<lparr>http_status = 201, message = Some ''Check-in successful'',
                body = CheckinBody (id_seq d) (js_today clk) (js_time clk)\<rparr>"
    by (simp add: p)
  show "employee_checkins (snd (post_employee_checkins clk u d)) =
                employee_checkins d @ [inserted_row clk u (id_seq d)]"
    by (simp add: p)
  show "user_id (inserted_row clk u (id_seq d)) = u"
    by (simp add: inserted_row_def)
  show "checkin_date (inserted_row clk u (id_seq d)) = current_date clk"
    by (simp add: inserted_row_def)
  have "filter (\<lambda>r. user_id r = u \<and> checkin_date r = current_date clk) (employee_checkins d) = []"
    using c by (simp add: rows_of_day_def)
  then show "rows_of_day u (current_date clk) (snd (post_employee_checkins clk u d)) =
                [inserted_row clk u (id_seq d)]"
    by (simp add: p rows_of_day_def inserted_row_def)
next
  assume "rows_of_day u (js_today clk) d = [] \<and> rows_of_day u (current_date clk) d \<noteq> []"
  then have "post_employee_checkins clk u d =
             (internal_server_error, d\<lparr>id_seq := id_seq d + 1\<rparr>)"
    by (intro post_refused) simp_all
  then show "employee_checkins (snd (post_employee_checkins clk u d)) = employee_checkins d"
    by simp
qed

text \<open>
  On the table with one record of employee 7 on day 20000: a second opening on that day
  is refused and leaves one record for the day; an opening on day 20001 is answered 201
  and the table then has two records, one of them for day 20001; and an opening by the
  clock whose handler date is still day 19999 leaves the rows as they were.
\<close>

theorem open_day_once_per_day_witness:
  "post_employee_checkins (clock_at 20000 (hms 9 5 0)) 7 opened_db =
     (\<lparr>http_status = 400, message = Some ''You have already checked in today'',
        body = NoBody\<rparr>, opened_db)
   \<and> length (rows_of_day 7 20000
         (snd (post_employee_checkins (clock_at 20000 (hms 9 5 0)) 7 opened_db))) = 1
   \<and> http_status (fst (post_employee_checkins (clock_at 20001 (hms 9 5 0)) 7 opened_db)) = 201
   \<and> length (employee_checkins
         (snd (post_employee_checkins (clock_at 20001 (hms 9 5 0)) 7 opened_db))) = 2
   \<and> length (rows_of_day 7 20001
         (snd (post_employee_checkins (clock_at 20001 (hms 9 5 0)) 7 opened_db))) = 1
   \<and> employee_checkins (snd (post_employee_checkins skewed_clock 7 opened_db)) =
       employee_checkins opened_db"
proof -
  have c: "constraints_hold opened_db"
    unfolding opened_db_def by (rule run_constraints [OF constraints_hold_init])
  have a: "rows_of_day 7 (js_today (clock_at 20000 (hms 9 5 0))) opened_db \<noteq> []"
    by code_simp
  have b: "rows_of_day 7 (js_today (clock_at 20001 (hms 9 5 0))) opened_db = []
           \<and> rows_of_day 7 (current_date (clock_at 20001 (hms 9 5 0))) opened_db = []"
    by code_simp
  have s: "rows_of_day 7 (js_today skewed_clock) opened_db = []
           \<and> rows_of_day 7 (current_date skewed_clock) opened_db \<noteq> []"
    by code_simp
  have j: "js_today (clock_at 20000 (hms 9 5 0)) = 20000"
          "current_date (clock_at 20001 (hms 9 5 0)) = 20001"
    by (simp_all add: clock_at_def)
  have l: "length (employee_checkins opened_db) = 1" by code_simp
  from open_day_once_per_day [OF c, of 7 "clock_at 20000 (hms 9 5 0)"] a
  have 1: "post_employee_checkins (clock_at 20000 (hms 9 5 0)) 7 opened_db =
     (\<lparr>http_status = 400, message = Some ''You have already checked in today'',
        body = NoBody\<rparr>, opened_db)
   \<and> length (rows_of_day 7 20000
         (snd (post_employee_checkins (clock_at 20000 (hms 9 5 0)) 7 opened_db))) = 1"
    unfolding j by blast
  from open_day_once_per_day [OF c, of 7 "clock_at 20001 (hms 9 5 0)"] b
  have 2: "http_status (fst (post_employee_checkins (clock_at 20001 (hms 9 5 0)) 7 opened_db)) = 201
   \<and> length (employee_checkins
         (snd (post_employee_checkins (clock_at 20001 (hms 9 5 0)) 7 opened_db))) = 2
   \<and> length (rows_of_day 7 20001
         (snd (post_employee_checkins (clock_at 20001 (hms 9 5 0)) 7 opened_db))) = 1"
    unfolding j by (simp add: l)
  from open_day_once_per_day [OF c, of 7 skewed_clock] s
  have 3: "employee_checkins (snd (post_employee_checkins skewed_clock 7 opened_db)) =
       employee_checkins opened_db"
    by blast
  from 1 2 3 show ?thesis by blast
qed

text \<open>
  Claim C2 as stated fails when the handler's date is not the database's. Half past
  midnight of day 20000 in a session two hours east of UTC, the handler's date still day
  19999: employee 7, who has a record for day 20000 and none for day 19999, gets 500
  \<open>Internal server error\<close>, neither the conflict nor a new record. On the empty table
  the same request is answered 201 with \<open>checkin_date\<close> 19999 in the body, and the record
  it creates is for day 20000: the table holds no record for the handler's day.
\<close>

theorem open_day_clock_skew_counterexample:
  "js_today skewed_clock = 19999 \<and> current_date skewed_clock = 20000
   \<and> rows_of_day 7 19999 opened_db = []
   \<and> fst (post_employee_checkins skewed_clock 7 opened_db) =
       \<lparr>http_status = 500, message = Some ''Internal server error'', body = NoBody\<rparr>
   \<and> employee_checkins (snd (post_employee_checkins skewed_clock 7 opened_db)) =
       employee_checkins opened_db
   \<and> fst (post_employee_checkins skewed_clock 7 init_db) =
       \<lparr>http_status = 201, message = Some ''Check-in successful'',
        body = CheckinBody 1 19999 ''22:30:00''\<rparr>
   \<and> rows_of_day 7 19999 (snd (post_employee_checkins skewed_clock 7 init_db)) = []
   \<and> map checkin_date
       (employee_checkins (snd (post_employee_checkins skewed_clock 7 init_db))) = [20000]"
  by code_simp

section \<open>Unrecognised transition types\<close>

text \<open>
  Claim C3. A transition request whose \<open>type\<close> is not one of the strings \<open>checkin\<close>,
  \<open>break\<close>, \<open>checkout\<close> (any other string, or a value that is not a string) is answered
  400 \<open>Invalid status type\<close>, and the database, which the handler has not called, is
  unchanged.
\<close>

theorem invalid_type_rejected:
  assumes "req_type req \<notin> set (map JString status_values)"
  shows "put_employee_checkins clk req d =
         (\<lparr>http_status = 400, message = Some ''Invalid status type'', body = NoBody\<rparr>, d)"
  using assms
  by (cases "req_type req")
     (auto simp: put_employee_checkins_def invalid_status_type_def status_values_def)

text \<open>
  The request of type \<open>lunch\<close> against the open record with id 1.
\<close>

theorem invalid_type_rejected_witness:
  "put_employee_checkins (clock_at 20000 (hms 12 0 0))
     \<lparr>req_id = Some 1, req_type = JString ''lunch''\<rparr> opened_db =
   (\<lparr>http_status = 400, message = Some ''Invalid status type'', body = NoBody\<rparr>, opened_db)"
proof -
  have "req_type \<lparr>req_id = Some 1, req_type = JString ''lunch''\<rparr>
          \<notin> set (map JString status_values)"
    by (simp add: status_values_def)
  then show ?thesis by (rule invalid_type_rejected)
qed

section \<open>The checkout transition\<close>











section \<open>Facts about the generated columns\<close>

lemma of_char_digit_char: "d < 10 \<Longrightarrow> (of_char (digit_char d) :: nat) = 48 + d"
  by (simp add: digit_char_def)

lemma digit_char_0: "digit_char 0 = CHR ''0''"
  unfolding digit_char_def by code_simp

lemma digit_char_not_colon: "d < 10 \<Longrightarrow> digit_char d \<noteq> CHR '':''"
proof
  assume d: "d < 10" and e: "digit_char d = CHR '':''"
  have "(of_char (digit_char d) :: nat) = 58" by (simp add: e)
  with of_char_digit_char [OF d] d show False by simp
qed

lemma is_digit_digit_char: "d < 10 \<Longrightarrow> is_digit (digit_char d)"
  by (simp add: is_digit_def of_char_digit_char)

lemma lpad_nat_text_two:
  "n < 100 \<Longrightarrow> lpad (nat_text n) 2 ''0'' = [digit_char (n div 10), digit_char (n mod 10)]"
proof (cases "n < 10")
  case True
  then show ?thesis
    by (simp add: nat_text.simps [of n] lpad_def digit_char_0 [symmetric])
next
  case False
  assume "n < 100"
  with False have "n div 10 < 10" by simp
  then have "nat_text (n div 10) = [digit_char (n div 10)]"
    by (simp add: nat_text.simps [of "n div 10"])
  with False show ?thesis by (simp add: nat_text.simps [of n] lpad_def)
qed

lemma generated_hours_nat:
  assumes "m < 6000"
  shows "generated_hours (int m) =
    [digit_char (m div 60 div 10), digit_char (m div 60 mod 10), CHR '':'',
     digit_char (m mod 60 div 10), digit_char (m mod 60 mod 10)]"
proof -
  have h: "m div 60 < 100" using assms by simp
  have l: "m mod 60 < 100" by (rule less_trans [of _ 60]) simp_all
  have d: "sql_div (int m) 60 = int (m div 60)"
    by (cases "m = 0") (simp_all add: sql_div_def zdiv_int)
  have r: "sql_mod (int m) 60 = int (m mod 60)"
    unfolding sql_mod_def d by (simp add: zmod_int zdiv_int minus_mult_div_eq_mod)
  show ?thesis
    unfolding generated_hours_def d r
    by (simp add: int_text_def lpad_nat_text_two [OF h] lpad_nat_text_two [OF l])
qed

lemma spec_parse_hhmm_digits:
  assumes "a < 10" "b < 10" "c < 10" "e < 10"
  shows "spec_parse_hhmm [digit_char a, digit_char b, CHR '':'', digit_char c, digit_char e]
         = Some (int ((10 * a + b) * 60 + (10 * c + e)))"
  using assms
  by (simp add: spec_parse_hhmm_def digit_char_not_colon is_digit_digit_char
      digits_value_def of_char_digit_char)

text \<open>
  Claim C5, as amended. For every minute count \<open>m\<close> with \<open>0 \<le> m < 6000\<close>, the text of the
  generated hours columns, read back as hours times 60 plus minutes, is \<open>m\<close>. From 6000
  minutes on the hours have three digits and \<open>LPAD\<close> keeps the first two.
\<close>

theorem generated_hours_roundtrip:
  "0 \<le> m \<Longrightarrow> m < 6000 \<Longrightarrow> spec_parse_hhmm (generated_hours m) = Some m"
proof -
  assume m: "0 \<le> m" "m < 6000"
  define k where "k = nat m"
  have k: "k < 6000" "m = int k" using m by (simp_all add: k_def)
  have "spec_parse_hhmm (generated_hours (int k)) = Some (int k)"
    unfolding generated_hours_nat [OF k(1)]
  proof -
    have h: "k div 60 < 100" using k(1) by (simp add: less_mult_imp_div_less)
    have a: "k div 60 div 10 < 10" using h by (simp add: less_mult_imp_div_less)
    have l: "k mod 60 < 60" by simp
    have c: "k mod 60 div 10 < 10" using l by (simp add: less_mult_imp_div_less)
    show "spec_parse_hhmm
     [digit_char (k div 60 div 10), digit_char (k div 60 mod 10), CHR '':'',
      digit_char (k mod 60 div 10), digit_char (k mod 60 mod 10)] = Some (int k)"
      by (subst spec_parse_hhmm_digits [OF a _ c]) simp_all
  qed
  then show ?thesis by (simp add: k)
qed

theorem generated_hours_roundtrip_witness:
  "(0::int) \<le> 5999 \<and> (5999::int) < 6000 \<and> spec_parse_hhmm (generated_hours 5999) = Some 5999"
  using generated_hours_roundtrip [of 5999] by simp

text \<open>
  Claim C5 as stated covers \<open>m < 10000\<close>; at 6000 minutes the column reads \<open>10:00\<close>,
  which is 600 minutes.
\<close>

theorem generated_hours_roundtrip_counterexample:
  "(0::int) \<le> 6000 \<and> (6000::int) < 10000 \<and> generated_hours 6000 = ''10:00''
   \<and> spec_parse_hhmm (generated_hours 6000) = Some 600
   \<and> spec_parse_hhmm (generated_hours 6000) \<noteq> Some 6000"
  by code_simp

section \<open>The record a new day starts with\<close>

text \<open>
  Claim C6. When opening a day is answered 201, exactly one row has been appended to the
  table: it belongs to the caller, has status \<open>checkin\<close>, no checkout time, \<open>on_break\<close>
  false, all three minute counters 0, and the database's current date and time as
  \<open>checkin_date\<close> and \<open>checkin_time\<close>. With any other answer the rows are as before.
\<close>

theorem created_record_initial_state:
  "(http_status (fst (post_employee_checkins clk u d)) = 201 \<longrightarrow>
      (\<exists>r. employee_checkins (snd (post_employee_checkins clk u d)) = employee_checkins d @ [r]
         \<and> user_id r = u
         \<and> status r = ''checkin'' \<and> checkout_time r = None \<and> on_break r = False
         \<and> total_working_minutes r = 0 \<and> total_break_minutes r = 0
         \<and> total_daily_minutes r = 0
         \<and> checkin_date r = current_date clk \<and> checkin_time r = current_time clk))
   \<and> (http_status (fst (post_employee_checkins clk u d)) \<noteq> 201 \<longrightarrow>
        employee_checkins (snd (post_employee_checkins clk u d)) = employee_checkins d)"
  by (cases rule: post_cases [of clk u d])
     (simp_all add: internal_server_error_def inserted_row_def)

text \<open>
  The first opening on the empty table, at 09:00:00 of day 20000.
\<close>

theorem created_record_initial_state_witness:
  "\<exists>r. employee_checkins (snd (post_employee_checkins (clock_at 20000 (hms 9 0 0)) 7 init_db))
          = employee_checkins init_db @ [r]
       \<and> user_id r = 7
       \<and> status r = ''checkin'' \<and> checkout_time r = None \<and> on_break r = False
       \<and> total_working_minutes r = 0 \<and> total_break_minutes r = 0
       \<and> total_daily_minutes r = 0
       \<and> checkin_date r = 20000 \<and> checkin_time r = 32400000000"
proof -
  have h: "http_status (fst (post_employee_checkins (clock_at 20000 (hms 9 0 0)) 7 init_db)) = 201"
    by code_simp
  have c: "current_date (clock_at 20000 (hms 9 0 0)) = 20000"
          "current_time (clock_at 20000 (hms 9 0 0)) = 32400000000"
    by (simp_all add: clock_at_def hms_def)
  from created_record_initial_state [of "clock_at 20000 (hms 9 0 0)" 7 init_db] h
  show ?thesis unfolding c by blast
qed

section \<open>The break flag\<close>

text \<open>
  Claim C7. After any sequence of requests (opening a day, applying a transition,
  reading the history) on the empty table, every stored record has \<open>on_break\<close> true
  exactly when its status is \<open>break\<close>.
\<close>

theorem on_break_invariant:
  "list_all (\<lambda>r. on_break r = (status r = ''break'')) (employee_checkins (run reqs init_db))"
proof -
  have "list_all on_break_matches_status (employee_checkins d) \<Longrightarrow>
        list_all on_break_matches_status (employee_checkins (run reqs d))" for d
    unfolding run_def by (induction reqs arbitrary: d) (simp_all add: handle_on_break)
  from this [of init_db] show ?thesis
    by (simp add: init_db_def on_break_matches_status_def [abs_def])
qed

text \<open>
  A day opened and a break started: the record has status \<open>break\<close> and \<open>on_break\<close> true.
\<close>

theorem on_break_invariant_witness:
  "list_all (\<lambda>r. on_break r = (status r = ''break''))
     (employee_checkins
        (run [OpenDay (clock_at 20000 (hms 9 0 0)) 7,
              ApplyTransition (clock_at 20000 (hms 12 0 0)) (transition 1 ''break'')] init_db))
   \<and> map (\<lambda>r. (status r, on_break r))
       (employee_checkins
        (run [OpenDay (clock_at 20000 (hms 9 0 0)) 7,
              ApplyTransition (clock_at 20000 (hms 12 0 0)) (transition 1 ''break'')] init_db))
     = [(''break'', True)]"
proof -
  have "map (\<lambda>r. (status r, on_break r))
       (employee_checkins
        (run [OpenDay (clock_at 20000 (hms 9 0 0)) 7,
              ApplyTransition (clock_at 20000 (hms 12 0 0)) (transition 1 ''break'')] init_db))
     = [(''break'', True)]"
    by code_simp
  with on_break_invariant [of "[OpenDay (clock_at 20000 (hms 9 0 0)) 7,
              ApplyTransition (clock_at 20000 (hms 12 0 0)) (transition 1 ''break'')]"]
  show ?thesis by simp
qed

section \<open>What a status change leaves alone\<close>

lemma update_where_id_frame:
  assumes "\<And>r. without_status_columns (f r) = without_status_columns r"
  shows "map without_status_columns (employee_checkins (update_where_id i f d)) =
         map without_status_columns (employee_checkins d)"
  by (simp add: update_where_id_def assms)

lemma frame_fields:
  assumes "map without_status_columns xs = map without_status_columns ys"
  shows "map checkin_date xs = map checkin_date ys
       \<and> map checkin_time xs = map checkin_time ys
       \<and> map checkout_time xs = map checkout_time ys
       \<and> map total_working_minutes xs = map total_working_minutes ys
       \<and> map total_break_minutes xs = map total_break_minutes ys
       \<and> map total_daily_minutes xs = map total_daily_minutes ys"
proof -
  have "map (f \<circ> without_status_columns) xs = map (f \<circ> without_status_columns) ys" for f :: "checkin \<Rightarrow> 'b"
    using assms by (metis map_map)
  note e = this
  have "checkin_date \<circ> without_status_columns = checkin_date"
       "checkin_time \<circ> without_status_columns = checkin_time"
       "checkout_time \<circ> without_status_columns = checkout_time"
       "total_working_minutes \<circ> without_status_columns = total_working_minutes"
       "total_break_minutes \<circ> without_status_columns = total_break_minutes"
       "total_daily_minutes \<circ> without_status_columns = total_daily_minutes"
    by (simp_all add: fun_eq_iff without_status_columns_def)
  with e [of checkin_date] e [of checkin_time] e [of checkout_time]
    e [of total_working_minutes] e [of total_break_minutes] e [of total_daily_minutes]
  show ?thesis by simp
qed

lemma put_frame:
  assumes "req_type req \<noteq> JString ''checkout''"
  shows "map without_status_columns (employee_checkins (snd (put_employee_checkins clk req d))) =
         map without_status_columns (employee_checkins d)"
proof (cases rule: put_cases [of clk req d])
  case unchanged
  then show ?thesis by simp
next
  case (updated i t)
  with assms have t: "t \<noteq> ''checkout''" by auto
  show ?thesis
    unfolding updated(2) put_valid [OF updated(1)] using t
    by (simp add: update_where_id_frame apply_status_def without_status_columns_def)
qed

text \<open>
  Claim C8. A transition request of type \<open>checkin\<close> or \<open>break\<close> for the record with id
  \<open>i\<close> is answered 200 and writes \<open>status\<close>, \<open>on_break\<close> and \<open>updated_at\<close> of that record
  and nothing else. Every transition request whose type is not \<open>checkout\<close> leaves
  \<open>checkin_date\<close>, \<open>checkin_time\<close>, \<open>checkout_time\<close> and the three minute counters of
  every record as they were.
\<close>

theorem status_transition_frame:
  assumes "t = ''checkin'' \<or> t = ''break''"
  shows "fst (put_employee_checkins clk \<lparr>req_id = Some i, req_type = JString t\<rparr> d) =
           \<lparr>http_status = 200, message = Some (transition_message t), body = NoBody\<rparr>
       \<and> employee_checkins (snd (put_employee_checkins clk \<lparr>req_id = Some i, req_type = JString t\<rparr> d)) =
           map (\<lambda>r. if checkin_id r = i
                     then r\<lparr>status := t, on_break := (t = ''break''),
                            updated_at := current_timestamp clk\<rparr>
                     else r) (employee_checkins d)
       \<and> (req_type req \<noteq> JString ''checkout'' \<longrightarrow>
            map checkin_date (employee_checkins (snd (put_employee_checkins clk req d))) =
              map checkin_date (employee_checkins d)
          \<and> map checkin_time (employee_checkins (snd (put_employee_checkins clk req d))) =
              map checkin_time (employee_checkins d)
          \<and> map checkout_time (employee_checkins (snd (put_employee_checkins clk req d))) =
              map checkout_time (employee_checkins d)
          \<and> map total_working_minutes (employee_checkins (snd (put_employee_checkins clk req d))) =
              map total_working_minutes (employee_checkins d)
          \<and> map total_break_minutes (employee_checkins (snd (put_employee_checkins clk req d))) =
              map total_break_minutes (employee_checkins d)
          \<and> map total_daily_minutes (employee_checkins (snd (put_employee_checkins clk req d))) =
              map total_daily_minutes (employee_checkins d))"
proof (intro conjI impI)
  have t: "t \<in> set status_values" "t \<noteq> ''checkout''"
    using assms by (auto simp: status_values_def)
  show "fst (put_employee_checkins clk \<lparr>req_id = Some i, req_type = JString t\<rparr> d) =
           \<lparr>http_status = 200, message = Some (transition_message t), body = NoBody\<rparr>"
    by (simp add: put_valid [OF t(1)])
  show "employee_checkins (snd (put_employee_checkins clk \<lparr>req_id = Some i, req_type = JString t\<rparr> d)) =
           map (\<lambda>r. if checkin_id r = i
                     then r\<lparr>status := t, on_break := (t = ''break''),
                            updated_at := current_timestamp clk\<rparr>
                     else r) (employee_checkins d)"
    using t(2) by (simp add: put_valid [OF t(1)] update_where_id_def apply_status_def [abs_def])
next
  assume a: "req_type req \<noteq> JString ''checkout''"
  note f = frame_fields [OF put_frame [OF a, of clk d]]
  show "map checkin_date (employee_checkins (snd (put_employee_checkins clk req d))) =
              map checkin_date (employee_checkins d)" using f by simp
  show "map checkin_time (employee_checkins (snd (put_employee_checkins clk req d))) =
              map checkin_time (employee_checkins d)" using f by simp
  show "map checkout_time (employee_checkins (snd (put_employee_checkins clk req d))) =
              map checkout_time (employee_checkins d)" using f by simp
  show "map total_working_minutes (employee_checkins (snd (put_employee_checkins clk req d))) =
              map total_working_minutes (employee_checkins d)" using f by simp
  show "map total_break_minutes (employee_checkins (snd (put_employee_checkins clk req d))) =
              map total_break_minutes (employee_checkins d)" using f by simp
  show "map total_daily_minutes (employee_checkins (snd (put_employee_checkins clk req d))) =
              map total_daily_minutes (employee_checkins d)" using f by simp
qed

text \<open>
  A break started on the open record with id 1.
\<close>

theorem status_transition_frame_witness:
  "map (\<lambda>r. (status r, on_break r))
     (employee_checkins
        (snd (put_employee_checkins (clock_at 20000 (hms 12 0 0))
                \<lparr>req_id = Some 1, req_type = JString ''break''\<rparr> opened_db)))
   = [(''break'', True)]
   \<and> map checkin_time
       (employee_checkins
          (snd (put_employee_checkins (clock_at 20000 (hms 12 0 0))
                  \<lparr>req_id = Some 1, req_type = JString ''break''\<rparr> opened_db)))
     = map checkin_time (employee_checkins opened_db)
   \<and> map checkout_time
       (employee_checkins
          (snd (put_employee_checkins (clock_at 20000 (hms 12 0 0))
                  \<lparr>req_id = Some 1, req_type = JString ''break''\<rparr> opened_db)))
     = map checkout_time (employee_checkins opened_db)"
proof -
  have t: "''break'' = ''checkin'' \<or> ''break'' = ''break''" by simp
  have n: "req_type \<lparr>req_id = Some 1, req_type = JString ''break''\<rparr> \<noteq> JString ''checkout''"
    by simp
  note f = status_transition_frame [OF t, of "clock_at 20000 (hms 12 0 0)" 1 opened_db
      "\<lparr>req_id = Some 1, req_type = JString ''break''\<rparr>"]
  have e: "employee_checkins
        (snd (put_employee_checkins (clock_at 20000 (hms 12 0 0))
                \<lparr>req_id = Some 1, req_type = JString ''break''\<rparr> opened_db)) =
        map (\<lambda>r. if checkin_id r = 1
                     then r\<lparr>status := ''break'', on_break := (''break'' = ''break''),
                            updated_at := current_timestamp (clock_at 20000 (hms 12 0 0))\<rparr>
                     else r) (employee_checkins opened_db)"
    using f by blast
  have 1: "map (\<lambda>r. (status r, on_break r))
     (employee_checkins
        (snd (put_employee_checkins (clock_at 20000 (hms 12 0 0))
                \<lparr>req_id = Some 1, req_type = JString ''break''\<rparr> opened_db)))
   = [(''break'', True)]"
    unfolding e by code_simp
  from f n 1 show ?thesis by blast
qed

section \<open>Reading the history\<close>
















end
